theory Spec2Isabelle
  imports Complex_Main "HOL-Library.Word" "HOL-Library.Sublist"
begin

text \<open>
  Three independent React components: the refund dialog, the country selector and the
  authentication context. Each handler is a function from the state cells it reads to
  the state cells it leaves, together with the list of what it did on the way
  (notifications, console output, callbacks, calls to external services), in order.
  What an external service answers is an input of the handler.
\<close>

section \<open>JavaScript values used by the three components\<close>

subsection \<open>Strings\<close>

text \<open>
  A JavaScript string is a sequence of UTF-16 code units. String literals of the source
  are ASCII and are written \<open>js ''...''\<close>.
\<close>

type_synonym jsstring = "16 word list"

definition js :: "string \<Rightarrow> jsstring" where
  "js s = map of_char s"

text \<open>
  \<open>String.prototype.trim\<close> removes leading and trailing code units that are ECMAScript
  \<open>WhiteSpace\<close> or \<open>LineTerminator\<close> (all of them lie in the basic plane).
\<close>

definition isWhiteSpace :: "16 word \<Rightarrow> bool" where
  "isWhiteSpace c =
     (c = 0x0009 \<or> c = 0x000A \<or> c = 0x000B \<or> c = 0x000C \<or> c = 0x000D \<or> c = 0x0020 \<or>
      c = 0x00A0 \<or> c = 0x1680 \<or> (0x2000 \<le> c \<and> c \<le> 0x200A) \<or> c = 0x2028 \<or>
      c = 0x2029 \<or> c = 0x202F \<or> c = 0x205F \<or> c = 0x3000 \<or> c = 0xFEFF)"

definition trim :: "jsstring \<Rightarrow> jsstring" where
  "trim s = rev (dropWhile isWhiteSpace (rev (dropWhile isWhiteSpace s)))"

text \<open>\<open>s.includes(q)\<close>: \<open>q\<close> occurs in \<open>s\<close> as a contiguous run of code units.\<close>

definition includes_js :: "jsstring \<Rightarrow> jsstring \<Rightarrow> bool" where
  "includes_js s q = sublist q s"

subsection \<open>Numbers\<close>

text \<open>
  A JavaScript \<open>number\<close> is an IEEE double: not-a-number, an infinity, or a finite value.
  The components only compare numbers, and the comparison of two finite doubles is the
  comparison of the reals they denote, so a finite double is kept as that real.
\<close>

datatype number = NaN | NegInfinity | Finite real | Infinity

fun isNaN :: "number \<Rightarrow> bool" where
  "isNaN NaN = True"
| "isNaN _ = False"

text \<open>\<open>a < b\<close> of JavaScript: false as soon as one side is \<open>NaN\<close>.\<close>

fun num_lt :: "number \<Rightarrow> number \<Rightarrow> bool" where
  "num_lt NaN _ = False"
| "num_lt _ NaN = False"
| "num_lt Infinity _ = False"
| "num_lt _ NegInfinity = False"
| "num_lt NegInfinity _ = True"
| "num_lt (Finite x) (Finite y) = (x < y)"
| "num_lt (Finite x) Infinity = True"

text \<open>\<open>a <= b\<close>, \<open>a > b\<close>: again false when a side is \<open>NaN\<close>.\<close>

definition num_le :: "number \<Rightarrow> number \<Rightarrow> bool" where
  "num_le a b = (\<not> isNaN a \<and> \<not> isNaN b \<and> \<not> num_lt b a)"

definition num_gt :: "number \<Rightarrow> number \<Rightarrow> bool" where
  "num_gt a b = num_lt b a"

subsection \<open>Notifications\<close>

text \<open>The argument of \<open>toast({ title, description, variant })\<close>; a field left out or
  \<open>undefined\<close> is \<open>None\<close>.\<close>

datatype variant = Default | Destructive

record toast =
  title :: jsstring
  description :: "jsstring option"
  variant :: "variant option"

section \<open>RefundDialog.tsx\<close>

datatype order_id = IdString jsstring | IdNumber number

record order_details =
  orderId :: order_id
  amount :: number
  cardNumber :: "jsstring option"

text \<open>The props. \<open>onClose\<close> is always there; \<open>onSuccess\<close> is optional, and
  \<open>onSuccess_given\<close> says whether the parent passed one.\<close>

record props =
  isOpen :: bool
  orderDetails :: order_details
  onSuccess_given :: bool

text \<open>The three \<open>useState\<close> cells of the dialog.\<close>

record refund_state =
  refundAmount :: number
  reason :: jsstring
  isProcessing :: bool

definition init :: "props \<Rightarrow> refund_state" where
  "init p = \<lparr>refundAmount = amount (orderDetails p), reason = [], isProcessing = False\<rparr>"

text \<open>The argument of \<open>VirtualCardService.processRefund\<close>.\<close>

record refund_request =
  req_orderId :: order_id
  req_amount :: number
  req_reason :: jsstring

text \<open>
  What a handler does beyond updating the state, in the order it does it. The refund
  service is external: how its promise settles is an input of \<open>handleSubmit\<close>. A value it
  throws is seen by the handler only through \<open>error instanceof Error\<close> and, for an
  \<open>Error\<close>, its \<open>message\<close>.
\<close>

datatype thrown = ErrorInstance jsstring | NotAnError

datatype refund_outcome = RefundResolves | RefundRejects thrown

datatype effect =
    Toast toast
  | ProcessRefund refund_request
  | OnSuccess
  | OnClose
  | ConsoleError
  | SetIsProcessing bool

text \<open>\<open>parseFloat\<close> is the built-in; it rounds to a double, so it stays a parameter.\<close>

definition handleAmountChange ::
  "(jsstring \<Rightarrow> number) \<Rightarrow> props \<Rightarrow> jsstring \<Rightarrow> refund_state \<Rightarrow> refund_state" where
  "handleAmountChange parseFloat p target_value s =
     (let v = parseFloat target_value in
      if \<not> isNaN v \<and> num_gt v (Finite 0) \<and> num_le v (amount (orderDetails p))
      then s\<lparr>refundAmount := v\<rparr>
      else s)"

definition handleReasonChange :: "jsstring \<Rightarrow> refund_state \<Rightarrow> refund_state" where
  "handleReasonChange target_value s = s\<lparr>reason := target_value\<rparr>"

text \<open>\<open>t\<close> is the translation function of the i18n layer. The callbacks and \<open>toast\<close>
  are taken to return normally.\<close>

definition handleSubmit ::
  "(jsstring \<Rightarrow> jsstring) \<Rightarrow> props \<Rightarrow> refund_outcome \<Rightarrow> refund_state \<Rightarrow>
     refund_state \<times> effect list" where
  "handleSubmit t p outcome s =
     (if num_le (refundAmount s) (Finite 0) \<or> num_gt (refundAmount s) (amount (orderDetails p))
      then (s, [Toast \<lparr>title = t (js ''refund.invalidAmount''),
                       description = Some (t (js ''refund.amountError'')),
                       variant = Some Destructive\<rparr>])
      else if trim (reason s) = []
      then (s, [Toast \<lparr>title = t (js ''refund.missingReason''),
                       description = Some (t (js ''refund.reasonRequired'')),
                       variant = Some Destructive\<rparr>])
      else
        (s\<lparr>isProcessing := False\<rparr>,
         [SetIsProcessing True,
          ProcessRefund \<lparr>req_orderId = orderId (orderDetails p),
                         req_amount = refundAmount s,
                         req_reason = reason s\<rparr>] @
         (case outcome of
            RefundResolves \<Rightarrow>
              [Toast \<lparr>title = t (js ''refund.success''),
                      description = Some (t (js ''refund.processed'')),
                      variant = Some Default\<rparr>] @
              (if onSuccess_given p then [OnSuccess] else []) @
              [OnClose]
          | RefundRejects e \<Rightarrow>
              [ConsoleError,
               Toast \<lparr>title = t (js ''refund.failed''),
                      description = Some (case e of ErrorInstance m \<Rightarrow> m
                                          | NotAnError \<Rightarrow> t (js ''refund.errorMessage'')),
                      variant = Some Destructive\<rparr>]) @
         [SetIsProcessing False]))"

text \<open>The events of the dialog, and a run of the dialog over a list of them: the state
  after the last one and everything the handlers did.\<close>

datatype event = AmountChange jsstring | ReasonChange jsstring | Submit refund_outcome

fun step ::
  "(jsstring \<Rightarrow> jsstring) \<Rightarrow> (jsstring \<Rightarrow> number) \<Rightarrow> props \<Rightarrow>
     refund_state \<times> effect list \<Rightarrow> event \<Rightarrow> refund_state \<times> effect list" where
  "step t parseFloat p (s, tr) (AmountChange v) = (handleAmountChange parseFloat p v s, tr)"
| "step t parseFloat p (s, tr) (ReasonChange v) = (handleReasonChange v s, tr)"
| "step t parseFloat p (s, tr) (Submit outcome) =
     (case handleSubmit t p outcome s of (s', tr') \<Rightarrow> (s', tr @ tr'))"

definition run ::
  "(jsstring \<Rightarrow> jsstring) \<Rightarrow> (jsstring \<Rightarrow> number) \<Rightarrow> props \<Rightarrow> event list \<Rightarrow>
     refund_state \<times> effect list" where
  "run t parseFloat p evs = foldl (step t parseFloat p) (init p, []) evs"

text \<open>The requests sent to the refund service in a trace.\<close>

fun refund_calls :: "effect list \<Rightarrow> refund_request list" where
  "refund_calls [] = []"
| "refund_calls (ProcessRefund r # es) = r # refund_calls es"
| "refund_calls (_ # es) = refund_calls es"

text \<open>The invariant of the data model: \<open>0 < refundAmount <= amount\<close>.\<close>

definition amount_in_range :: "props \<Rightarrow> refund_state \<Rightarrow> bool" where
  "amount_in_range p s =
     (num_lt (Finite 0) (refundAmount s) \<and> num_le (refundAmount s) (amount (orderDetails p)))"

section \<open>CountrySelector.tsx\<close>

text \<open>An entry of the static list \<open>countries\<close> of \<open>country-data\<close>. The list itself is not
  part of these files and is a parameter.\<close>

record country =
  code :: jsstring
  name :: jsstring
  nameAr :: jsstring
  flagEmoji :: jsstring

text \<open>\<open>String.prototype.toLowerCase\<close> is the built-in Unicode mapping and stays a
  parameter of the filter.\<close>

definition filteredCountries ::
  "(jsstring \<Rightarrow> jsstring) \<Rightarrow> country list \<Rightarrow> jsstring \<Rightarrow> country list" where
  "filteredCountries toLowerCase countries countrySearchQuery =
     (if trim countrySearchQuery = [] then countries
      else filter (\<lambda>country.
             let query = toLowerCase countrySearchQuery in
             includes_js (toLowerCase (name country)) query \<or>
             includes_js (toLowerCase (nameAr country)) query \<or>
             includes_js (toLowerCase (code country)) query) countries)"

text \<open>The part of the rendered tree below the search box: the grid of the filtered
  countries, or the \<open>noCountriesFound\<close> message.\<close>

datatype country_list_view = CountryGrid "country list" | NoCountriesFound

definition detailed_country_list ::
  "(jsstring \<Rightarrow> jsstring) \<Rightarrow> country list \<Rightarrow> jsstring \<Rightarrow> country_list_view" where
  "detailed_country_list toLowerCase countries countrySearchQuery =
     (let filtered = filteredCountries toLowerCase countries countrySearchQuery in
      if length filtered > 0 then CountryGrid filtered else NoCountriesFound)"

text \<open>
  The filter as the specification words it: the entries whose name, localized name or
  code contains the query, both sides lower-cased.
\<close>

definition spec_contains_ci :: "(jsstring \<Rightarrow> jsstring) \<Rightarrow> jsstring \<Rightarrow> jsstring \<Rightarrow> bool" where
  "spec_contains_ci toLowerCase s q = sublist (toLowerCase q) (toLowerCase s)"

definition spec_matching_countries ::
  "(jsstring \<Rightarrow> jsstring) \<Rightarrow> country list \<Rightarrow> jsstring \<Rightarrow> country list" where
  "spec_matching_countries toLowerCase countries q =
     filter (\<lambda>c. spec_contains_ci toLowerCase (name c) q \<or>
                 spec_contains_ci toLowerCase (nameAr c) q \<or>
                 spec_contains_ci toLowerCase (code c) q) countries"

text \<open>
  For concrete inputs: \<open>toLowerCase\<close> on strings whose only cased letters are \<open>A\<close> to
  \<open>Z\<close> (ASCII text, Arabic script), where the built-in maps exactly these.
\<close>

definition toLowerCase_ascii :: "jsstring \<Rightarrow> jsstring" where
  "toLowerCase_ascii s = map (\<lambda>c. if 0x41 \<le> c \<and> c \<le> 0x5A then c + 0x20 else c) s"

section \<open>AuthContext.tsx\<close>

subsection \<open>Values exchanged with the hosted backend\<close>

text \<open>An error object, returned in \<open>{ error }\<close> or thrown. The context reads nothing of
  it but \<open>message\<close>, which may be missing.\<close>

datatype js_error = JsError (message: "jsstring option")

text \<open>What awaiting a backend call gives: the promise resolves with \<open>{ data, error }\<close>,
  or it rejects.\<close>

datatype 'a response = Resolves 'a "js_error option" | Rejects js_error

text \<open>The error of a call that failed: the thrown value, or the \<open>error\<close> of the answer.\<close>

fun failure :: "'a response \<Rightarrow> js_error option" where
  "failure (Rejects e) = Some e"
| "failure (Resolves d err) = err"

record User =
  user_id :: jsstring

record Session =
  session_user :: User

record profile_row =
  row_id :: jsstring
  email :: jsstring
  full_name :: jsstring
  user_type :: jsstring
  created_at :: jsstring

text \<open>\<open>metadata\<close> of \<open>signUp\<close> is read only through \<open>metadata?.full_name\<close>.\<close>

record metadata =
  md_full_name :: "jsstring option"

text \<open>\<open>data\<close> of \<open>supabase.auth.signUp\<close>.\<close>

record auth_data =
  data_user :: "User option"
  data_session :: "Session option"

datatype auth_event =
    INITIAL_SESSION | PASSWORD_RECOVERY | SIGNED_IN | SIGNED_OUT
  | TOKEN_REFRESHED | USER_UPDATED | MFA_CHALLENGE_VERIFIED

text \<open>The state cells of \<open>AuthProvider\<close>.\<close>

record auth_state =
  session :: "Session option"
  user :: "User option"
  loading :: bool
  isAdmin :: bool
  profile :: "profile_row option"
  isLoading :: bool

text \<open>What the context does beyond updating its state: notifications, console output and
  the calls it sends to the backend.\<close>

datatype auth_effect =
    AuthToast toast
  | AuthConsoleError
  | SelectProfileById jsstring
  | SelectUserTypeById jsstring
  | SelectIdByEmail jsstring
  | SignInWithPassword jsstring jsstring
  | AuthSignUp jsstring jsstring "metadata option"
  | InsertProfile profile_row
  | AdminDeleteUser jsstring
  | AuthSignOut

fun auth_toasts :: "auth_effect list \<Rightarrow> toast list" where
  "auth_toasts [] = []"
| "auth_toasts (AuthToast n # es) = n # auth_toasts es"
| "auth_toasts (_ # es) = auth_toasts es"

subsection \<open>Session changes and profile fetches\<close>

text \<open>
  The listener passed to \<open>onAuthStateChange\<close>. \<open>fetchProfile\<close> and \<open>checkUserRole\<close> are
  started without \<open>await\<close>: the listener sends their queries and goes on; their answers
  are handled later by \<open>fetchProfile\<close> and \<open>checkUserRole\<close> below.
\<close>

definition onAuthStateChange_listener ::
  "auth_event \<Rightarrow> Session option \<Rightarrow> auth_state \<Rightarrow> auth_state \<times> auth_effect list" where
  "onAuthStateChange_listener ev sess s =
     (let s1 = s\<lparr>session := sess, user := map_option session_user sess\<rparr>;
          started = (case sess of
                       None \<Rightarrow> []
                     | Some se \<Rightarrow>
                         SelectProfileById (user_id (session_user se)) #
                         (if user_id (session_user se) = [] then []
                          else [SelectUserTypeById (user_id (session_user se))]));
          s2 = (if ev = SIGNED_OUT then s1\<lparr>isAdmin := False, profile := None\<rparr> else s1)
      in (s2\<lparr>loading := False, isLoading := False\<rparr>, started))"

definition fetchProfile ::
  "profile_row option response \<Rightarrow> jsstring \<Rightarrow> auth_state \<Rightarrow> auth_state \<times> auth_effect list" where
  "fetchProfile answer userId s =
     (case answer of
        Resolves d None \<Rightarrow> (s\<lparr>profile := d\<rparr>, [SelectProfileById userId])
      | Resolves d (Some e) \<Rightarrow> (s, [SelectProfileById userId, AuthConsoleError])
      | Rejects e \<Rightarrow> (s, [SelectProfileById userId, AuthConsoleError]))"

definition refreshProfile ::
  "profile_row option response \<Rightarrow> auth_state \<Rightarrow> auth_state \<times> auth_effect list" where
  "refreshProfile answer s =
     (case user s of
        None \<Rightarrow> (s, [])
      | Some u \<Rightarrow> fetchProfile answer (user_id u) s)"

definition checkUserRole ::
  "jsstring option response \<Rightarrow> jsstring \<Rightarrow> auth_state \<Rightarrow> auth_state \<times> auth_effect list" where
  "checkUserRole answer userId s =
     (if userId = [] then (s, [])
      else case answer of
        Resolves d None \<Rightarrow> (s\<lparr>isAdmin := (d = Some (js ''admin''))\<rparr>, [SelectUserTypeById userId])
      | Resolves d (Some e) \<Rightarrow> (s, [SelectUserTypeById userId, AuthConsoleError])
      | Rejects e \<Rightarrow> (s, [SelectUserTypeById userId, AuthConsoleError]))"

subsection \<open>Sign-in and sign-out\<close>

definition signIn ::
  "unit response \<Rightarrow> jsstring \<Rightarrow> jsstring \<Rightarrow> js_error option \<times> auth_effect list" where
  "signIn answer em password =
     (let failed = (\<lambda>e. (Some e,
            [SignInWithPassword em password,
             AuthToast \<lparr>title = js ''auth.login_failed'', description = message e,
                        variant = Some Destructive\<rparr>]))
      in case answer of
        Resolves d None \<Rightarrow> (None, [SignInWithPassword em password])
      | Resolves d (Some e) \<Rightarrow> failed e
      | Rejects e \<Rightarrow> failed e)"

text \<open>\<open>signOut\<close> awaits the backend call and looks at nothing it returns; a rejection
  leaves \<open>signOut\<close> itself rejected (\<open>Inl\<close>).\<close>

definition signOut :: "unit response \<Rightarrow> (js_error + unit) \<times> auth_effect list" where
  "signOut answer =
     (case answer of
        Resolves d err \<Rightarrow> (Inr (), [AuthSignOut])
      | Rejects e \<Rightarrow> (Inl e, [AuthSignOut]))"

subsection \<open>Sign-up\<close>

text \<open>
  The backend's answers to the calls of one \<open>signUp\<close>, in the order of the calls: the
  pre-check query (\<open>data\<close> is \<open>{ id }\<close> or \<open>null\<close>), \<open>auth.signUp\<close>, the profile insert and
  \<open>auth.admin.deleteUser\<close>; \<open>now_iso\<close> is \<open>new Date().toISOString()\<close>.
\<close>

record signUp_backend =
  precheck :: "jsstring option response"
  auth_signUp :: "auth_data response"
  profiles_insert :: "unit response"
  admin_deleteUser :: "unit response"
  now_iso :: jsstring

text \<open>\<open>{ error, data }\<close>, the value \<open>signUp\<close> resolves with.\<close>

record signUp_result =
  res_error :: "js_error option"
  res_data :: "auth_data option"

text \<open>\<open>error.message || "auth.unknown_error"\<close>: a missing or empty message is falsy.\<close>

definition message_or :: "js_error \<Rightarrow> jsstring \<Rightarrow> jsstring" where
  "message_or e d = (case message e of None \<Rightarrow> d | Some m \<Rightarrow> if m = [] then d else m)"

text \<open>The outer \<open>catch\<close> of \<open>signUp\<close>, after the effects \<open>tr\<close> done so far.\<close>

definition signUp_catch :: "js_error \<Rightarrow> auth_effect list \<Rightarrow> signUp_result \<times> auth_effect list" where
  "signUp_catch e tr =
     (\<lparr>res_error = Some e, res_data = None\<rparr>,
      tr @ [AuthToast \<lparr>title = js ''auth.registration_failed'',
                       description = Some (message_or e (js ''auth.unknown_error'')),
                       variant = Some Destructive\<rparr>])"

text \<open>The end of the \<open>try\<close> block: the success notification and \<open>{ error: null, data }\<close>.\<close>

definition signUp_success :: "auth_data \<Rightarrow> auth_effect list \<Rightarrow> signUp_result \<times> auth_effect list" where
  "signUp_success d tr =
     (\<lparr>res_error = None, res_data = Some d\<rparr>,
      tr @ [AuthToast \<lparr>title = js ''auth.registration_success'',
                       description = Some (js ''auth.account_created''),
                       variant = None\<rparr>])"

text \<open>\<open>metadata?.full_name || ''\<close>.\<close>

definition full_name_of :: "metadata option \<Rightarrow> jsstring" where
  "full_name_of md =
     (case md of None \<Rightarrow> [] | Some m \<Rightarrow> (case md_full_name m of None \<Rightarrow> [] | Some n \<Rightarrow> n))"

definition signUp ::
  "signUp_backend \<Rightarrow> jsstring \<Rightarrow> jsstring \<Rightarrow> metadata option \<Rightarrow>
     signUp_result \<times> auth_effect list" where
  "signUp b em password md =
     (case precheck b of
        Rejects e \<Rightarrow> signUp_catch e [SelectIdByEmail em]
      | Resolves existingUser checkError \<Rightarrow>
          let tr0 = SelectIdByEmail em # (if checkError \<noteq> None then [AuthConsoleError] else [])
          in if existingUser \<noteq> None
             then (\<lparr>res_error = Some (JsError (Some (js ''auth.email_already_exists''))),
                    res_data = None\<rparr>,
                   tr0 @ [AuthToast \<lparr>title = js ''auth.registration_failed'',
                                     description = Some (js ''auth.email_already_exists''),
                                     variant = Some Destructive\<rparr>])
             else
               let tr1 = tr0 @ [AuthSignUp em password md]
               in case auth_signUp b of
                    Rejects e \<Rightarrow> signUp_catch e tr1
                  | Resolves d (Some e) \<Rightarrow> signUp_catch e tr1
                  | Resolves d None \<Rightarrow>
                      (case data_user d of
                         None \<Rightarrow> signUp_success d tr1
                       | Some u \<Rightarrow>
                           let tr2 = tr1 @ [InsertProfile
                                 \<lparr>row_id = user_id u, email = em, full_name = full_name_of md,
                                  user_type = js ''user'', created_at = now_iso b\<rparr>]
                           in case profiles_insert b of
                                Rejects e \<Rightarrow> signUp_catch e tr2
                              | Resolves x None \<Rightarrow> signUp_success d tr2
                              | Resolves x (Some profileError) \<Rightarrow>
                                  signUp_catch (JsError (Some (js ''auth.profile_creation_failed'')))
                                    (tr2 @ [AuthConsoleError, AdminDeleteUser (user_id u)] @
                                     (case admin_deleteUser b of
                                        Rejects deleteError \<Rightarrow> [AuthConsoleError]
                                      | Resolves y err \<Rightarrow> []))))"

text \<open>
  Modelled from the spec: the hosted backend's row storage, which is not part of the
  source files (``\<open>select\<close>/\<open>insert\<close> against a \<open>profiles\<close> table keyed by user id, filtered
  by \<open>email\<close>''). It answers the pre-check
  \<open>from('profiles').select('id').eq('email', email).maybeSingle()\<close> from the rows of the
  table: \<open>null\<close> for no matching row, the row for one, and, as the client library has it
  for \<open>maybeSingle\<close>, an error for several. The request can also fail as a whole, with an
  error in the answer or with a rejected promise. \<open>signUp\<close> itself takes the answer as
  an input and does not depend on this model.
\<close>

datatype fault = NoFault | ErrorAnswer js_error | Rejected js_error

definition select_id_by_email :: "fault \<Rightarrow> profile_row list \<Rightarrow> jsstring \<Rightarrow> jsstring option response" where
  "select_id_by_email f rows em =
     (case f of
        Rejected e \<Rightarrow> Rejects e
      | ErrorAnswer e \<Rightarrow> Resolves None (Some e)
      | NoFault \<Rightarrow>
          (case filter (\<lambda>r. email r = em) rows of
             [] \<Rightarrow> Resolves None None
           | [r] \<Rightarrow> Resolves (Some (row_id r)) None
           | r # r' # rs \<Rightarrow>
               Resolves None (Some (JsError (Some (js ''multiple rows returned''))))))"

text \<open>The backend calls in a trace that create an auth identity or a profile row.\<close>

fun is_creation :: "auth_effect \<Rightarrow> bool" where
  "is_creation (AuthSignUp em pw md) = True"
| "is_creation (InsertProfile r) = True"
| "is_creation _ = False"

section \<open>Properties of the refund dialog\<close>

subsection \<open>Comparisons and traces\<close>

lemma js_nonempty: "js (c # cs) \<noteq> []"
  by (simp add: js_def)

lemma trim_Nil: "trim [] = []"
  by (simp add: trim_def)

lemma trim_damaged_item: "trim (js ''damaged item'') \<noteq> []"
  by (simp add: js_def trim_def isWhiteSpace_def)

lemma num_lt_not_NaN: "num_lt a b \<Longrightarrow> \<not> isNaN a \<and> \<not> isNaN b"
  by (cases a; cases b) simp_all

lemma in_range_passes_gate:
  "amount_in_range p s \<Longrightarrow>
     \<not> (num_le (refundAmount s) (Finite 0) \<or> num_gt (refundAmount s) (amount (orderDetails p)))"
  by (cases "refundAmount s"; cases "amount (orderDetails p)")
     (auto simp: amount_in_range_def num_le_def num_gt_def)

lemma gate_iff_not_in_range:
  "\<not> isNaN (refundAmount s) \<Longrightarrow> \<not> isNaN (amount (orderDetails p)) \<Longrightarrow>
     (num_le (refundAmount s) (Finite 0) \<or> num_gt (refundAmount s) (amount (orderDetails p)))
       = (\<not> amount_in_range p s)"
  by (cases "refundAmount s"; cases "amount (orderDetails p)")
     (auto simp: amount_in_range_def num_le_def num_gt_def)

lemma refund_calls_append: "refund_calls (xs @ ys) = refund_calls xs @ refund_calls ys"
  by (induction xs rule: refund_calls.induct) simp_all

lemma handleAmountChange_eq:
  "handleAmountChange parseFloat p v s =
     (if num_lt (Finite 0) (parseFloat v) \<and> num_le (parseFloat v) (amount (orderDetails p))
      then s\<lparr>refundAmount := parseFloat v\<rparr> else s)"
  by (auto simp: handleAmountChange_def Let_def num_gt_def num_le_def dest: num_lt_not_NaN)

lemma handleAmountChange_preserves:
  "amount_in_range p s \<Longrightarrow> amount_in_range p (handleAmountChange parseFloat p v s)"
  by (simp add: handleAmountChange_eq amount_in_range_def)

lemma init_in_range:
  "num_gt (amount (orderDetails p)) (Finite 0) \<Longrightarrow> amount_in_range p (init p)"
  by (cases "amount (orderDetails p)")
     (auto simp: amount_in_range_def init_def num_gt_def num_le_def)

lemma step_in_range:
  "amount_in_range p (fst st) \<Longrightarrow> amount_in_range p (fst (step t parseFloat p st ev))"
  by (cases st; cases ev)
     (auto simp: handleAmountChange_eq handleReasonChange_def handleSubmit_def amount_in_range_def
           split: prod.splits if_splits)

lemma foldl_step_in_range:
  "amount_in_range p (fst st) \<Longrightarrow> amount_in_range p (fst (foldl (step t parseFloat p) st evs))"
  by (induction evs arbitrary: st) (simp_all add: step_in_range)

subsection \<open>The amount gate\<close>

text \<open>
  Claim C2, at the input where the code leaves it. The dialog is opened for an order
  whose \<open>amount\<close> is \<open>NaN\<close>, so \<open>refundAmount\<close> starts as \<open>NaN\<close>; the user types a reason
  and submits. The amount is not in \<open>(0, amount]\<close>, yet both comparisons of the gate of
  \<open>handleSubmit\<close> are false on \<open>NaN\<close>, and the refund service is called with amount
  \<open>NaN\<close>. (\<open>handleAmountChange\<close> does test \<open>isNaN\<close>; \<open>handleSubmit\<close> does not.)
\<close>

theorem handleSubmit_NaN_amount_reaches_service:
  "\<not> amount_in_range
       \<lparr>isOpen = True,
        orderDetails = \<lparr>orderId = IdNumber (Finite 42), amount = NaN, cardNumber = None\<rparr>,
        onSuccess_given = False\<rparr>
       (fst (run t parseFloat
          \<lparr>isOpen = True,
           orderDetails = \<lparr>orderId = IdNumber (Finite 42), amount = NaN, cardNumber = None\<rparr>,
           onSuccess_given = False\<rparr>
          [ReasonChange (js ''damaged item'')])) \<and>
   refund_calls (snd (run t parseFloat
       \<lparr>isOpen = True,
        orderDetails = \<lparr>orderId = IdNumber (Finite 42), amount = NaN, cardNumber = None\<rparr>,
        onSuccess_given = False\<rparr>
       [ReasonChange (js ''damaged item''), Submit RefundResolves])) =
     [\<lparr>req_orderId = IdNumber (Finite 42), req_amount = NaN, req_reason = js ''damaged item''\<rparr>]"
  using trim_damaged_item
  by (simp add: run_def handleReasonChange_def handleSubmit_def amount_in_range_def
      init_def num_le_def num_gt_def)

text \<open>
  Away from \<open>NaN\<close> the gate is the one the specification words: for an amount and an
  order total that are numbers, \<open>handleSubmit\<close> calls the refund service exactly when
  \<open>0 < refundAmount <= amount\<close> and the reason is not blank; when the amount is out of
  range it shows the invalid-amount notification, changes nothing and calls nothing.
\<close>

theorem handleSubmit_calls_iff_amount_in_range:
  assumes "\<not> isNaN (refundAmount s)" and "\<not> isNaN (amount (orderDetails p))"
  shows "(refund_calls (snd (handleSubmit t p outcome s)) \<noteq> []) =
           (amount_in_range p s \<and> trim (reason s) \<noteq> []) \<and>
         (\<not> amount_in_range p s \<longrightarrow>
            handleSubmit t p outcome s =
              (s, [Toast \<lparr>title = t (js ''refund.invalidAmount''),
                          description = Some (t (js ''refund.amountError'')),
                          variant = Some Destructive\<rparr>]))"
  using gate_iff_not_in_range[OF assms]
  by (simp add: handleSubmit_def)

theorem handleSubmit_calls_iff_amount_in_range_witness:
  "refund_calls (snd (handleSubmit (\<lambda>k. k)
       \<lparr>isOpen = True,
        orderDetails = \<lparr>orderId = IdNumber (Finite 42), amount = Finite 100, cardNumber = None\<rparr>,
        onSuccess_given = False\<rparr>
       RefundResolves
       \<lparr>refundAmount = Finite 150, reason = js ''damaged item'', isProcessing = False\<rparr>)) = [] \<and>
   refund_calls (snd (handleSubmit (\<lambda>k. k)
       \<lparr>isOpen = True,
        orderDetails = \<lparr>orderId = IdNumber (Finite 42), amount = Finite 100, cardNumber = None\<rparr>,
        onSuccess_given = False\<rparr>
       RefundResolves
       \<lparr>refundAmount = Finite 50, reason = js ''damaged item'', isProcessing = False\<rparr>)) \<noteq> []"
  using trim_damaged_item
    handleSubmit_calls_iff_amount_in_range
      [of "\<lparr>refundAmount = Finite 150, reason = js ''damaged item'', isProcessing = False\<rparr>"
          "\<lparr>isOpen = True,
            orderDetails = \<lparr>orderId = IdNumber (Finite 42), amount = Finite 100, cardNumber = None\<rparr>,
            onSuccess_given = False\<rparr>" "\<lambda>k. k" RefundResolves]
    handleSubmit_calls_iff_amount_in_range
      [of "\<lparr>refundAmount = Finite 50, reason = js ''damaged item'', isProcessing = False\<rparr>"
          "\<lparr>isOpen = True,
            orderDetails = \<lparr>orderId = IdNumber (Finite 42), amount = Finite 100, cardNumber = None\<rparr>,
            onSuccess_given = False\<rparr>" "\<lambda>k. k" RefundResolves]
  by (simp add: amount_in_range_def num_le_def)

subsection \<open>The amount field\<close>

text \<open>
  Claim C10. For every input string, \<open>handleAmountChange\<close> leaves the state as it is
  unless \<open>parseFloat\<close> of the string is a number \<open>v\<close> with \<open>0 < v <= orderDetails.amount\<close>,
  and then only \<open>refundAmount\<close> changes, to \<open>v\<close>. Hence, when \<open>orderDetails.amount > 0\<close>,
  the invariant \<open>0 < refundAmount <= orderDetails.amount\<close> holds in the initial state, is
  preserved by every amount-change event, and holds after every run of events of the
  dialog.
\<close>

theorem handleAmountChange_keeps_amount_in_range:
  "(\<forall>s v. handleAmountChange parseFloat p v s =
      (if num_lt (Finite 0) (parseFloat v) \<and> num_le (parseFloat v) (amount (orderDetails p))
       then s\<lparr>refundAmount := parseFloat v\<rparr> else s)) \<and>
   (num_gt (amount (orderDetails p)) (Finite 0) \<longrightarrow>
      amount_in_range p (init p) \<and>
      (\<forall>s v. amount_in_range p s \<longrightarrow> amount_in_range p (handleAmountChange parseFloat p v s)) \<and>
      (\<forall>evs. amount_in_range p (fst (run t parseFloat p evs))))"
  using handleAmountChange_eq handleAmountChange_preserves init_in_range
    foldl_step_in_range[of p "(init p, [])"]
  by (simp add: run_def)

theorem handleAmountChange_keeps_amount_in_range_witness:
  "num_gt (Finite 100) (Finite 0) \<and>
   amount_in_range
     \<lparr>isOpen = True,
        orderDetails = \<lparr>orderId = IdNumber (Finite 42), amount = Finite 100, cardNumber = None\<rparr>,
        onSuccess_given = True\<rparr>
     (fst (run (\<lambda>k. k) (\<lambda>v. if v = js ''150'' then Finite 150 else if v = js ''50'' then Finite 50 else NaN)
        \<lparr>isOpen = True,
        orderDetails = \<lparr>orderId = IdNumber (Finite 42), amount = Finite 100, cardNumber = None\<rparr>,
        onSuccess_given = True\<rparr>
        [AmountChange (js ''150''), AmountChange (js ''50''), AmountChange (js ''abc'')]))"
  using handleAmountChange_keeps_amount_in_range
    [of "(\<lambda>v. if v = js ''150'' then Finite 150 else if v = js ''50'' then Finite 50 else NaN)"
        "\<lparr>isOpen = True,
        orderDetails = \<lparr>orderId = IdNumber (Finite 42), amount = Finite 100, cardNumber = None\<rparr>,
        onSuccess_given = True\<rparr>" "\<lambda>k. k"]
  by (simp add: num_gt_def)

subsection \<open>Submission\<close>

text \<open>
  Claim C8. For every reason \<open>r\<close> with \<open>r.trim() === ""\<close>, whatever the amount, the order
  and the way the service would answer: \<open>handleSubmit\<close> sends nothing to the refund
  service, leaves the state as it is, and all it does is show one destructive
  notification.
\<close>

theorem handleSubmit_blank_reason_rejected:
  assumes "trim (reason s) = []"
  shows "refund_calls (snd (handleSubmit t p outcome s)) = [] \<and>
         fst (handleSubmit t p outcome s) = s \<and>
         (\<exists>n. snd (handleSubmit t p outcome s) = [Toast n] \<and> variant n = Some Destructive)"
  using assms by (simp add: handleSubmit_def)

theorem handleSubmit_blank_reason_rejected_witness:
  "trim [0x20, 0x09, 0x0A] = [] \<and>
   refund_calls (snd (handleSubmit (\<lambda>k. k)
     \<lparr>isOpen = True,
        orderDetails = \<lparr>orderId = IdNumber (Finite 42), amount = Finite 100, cardNumber = None\<rparr>,
        onSuccess_given = True\<rparr>
     RefundResolves
     \<lparr>refundAmount = Finite 50, reason = [0x20, 0x09, 0x0A], isProcessing = False\<rparr>)) = []"
proof -
  have blank: "trim [0x20, 0x09, 0x0A] = []"
    by (simp add: trim_def isWhiteSpace_def)
  show ?thesis
    using blank handleSubmit_blank_reason_rejected
      [of "\<lparr>refundAmount = Finite 50, reason = [0x20, 0x09, 0x0A], isProcessing = False\<rparr>"
          "\<lambda>k. k"
          "\<lparr>isOpen = True,
        orderDetails = \<lparr>orderId = IdNumber (Finite 42), amount = Finite 100, cardNumber = None\<rparr>,
        onSuccess_given = True\<rparr>" RefundResolves]
    by simp
qed

text \<open>
  Claim C3 as stated fails on its fallback rule. The service throws an \<open>Error\<close> whose
  message is empty, so the error has no message to show; the failure notification is
  shown with that empty description, and the generic \<open>refund.errorMessage\<close> is not used:
  \<open>handleSubmit\<close> falls back on \<open>error instanceof Error\<close>, not on the message.
\<close>

theorem handleSubmit_empty_message_no_fallback:
  "handleSubmit (\<lambda>k. k)
     \<lparr>isOpen = True,
        orderDetails = \<lparr>orderId = IdNumber (Finite 42), amount = Finite 100, cardNumber = None\<rparr>,
        onSuccess_given = True\<rparr>
     (RefundRejects (ErrorInstance []))
     \<lparr>refundAmount = Finite 50, reason = js ''damaged item'', isProcessing = False\<rparr> =
     (\<lparr>refundAmount = Finite 50, reason = js ''damaged item'', isProcessing = False\<rparr>,
      [SetIsProcessing True,
       ProcessRefund \<lparr>req_orderId = IdNumber (Finite 42), req_amount = Finite 50,
                      req_reason = js ''damaged item''\<rparr>,
       ConsoleError,
       Toast \<lparr>title = js ''refund.failed'', description = Some [],
              variant = Some Destructive\<rparr>,
       SetIsProcessing False]) \<and>
   js ''refund.errorMessage'' \<noteq> []"
  using trim_damaged_item
  by (simp add: handleSubmit_def num_le_def num_gt_def js_nonempty)

text \<open>
  Claim C3, amended. On a valid submission (the amount in \<open>(0, amount]\<close>, the reason not
  blank) \<open>handleSubmit\<close> sets the processing flag and calls the refund operation with the
  order id, the entered amount and the reason. If the call succeeds it shows the success
  notification, calls \<open>onSuccess\<close> (when the parent passed one) and \<open>onClose\<close>. If the call
  throws, it logs and shows the failure notification: with the message of the thrown
  value when that value is an \<open>Error\<close> instance, whatever the message, and with the
  generic \<open>refund.errorMessage\<close> when it is not an \<open>Error\<close> instance; it does not call
  \<open>onClose\<close>. Both ways the processing flag is cleared last.
\<close>

theorem handleSubmit_valid_submission:
  assumes "amount_in_range p s" and "trim (reason s) \<noteq> []"
  shows "handleSubmit t p RefundResolves s =
           (s\<lparr>isProcessing := False\<rparr>,
            [SetIsProcessing True,
             ProcessRefund \<lparr>req_orderId = orderId (orderDetails p), req_amount = refundAmount s,
                            req_reason = reason s\<rparr>,
             Toast \<lparr>title = t (js ''refund.success''),
                    description = Some (t (js ''refund.processed'')), variant = Some Default\<rparr>] @
            (if onSuccess_given p then [OnSuccess] else []) @
            [OnClose, SetIsProcessing False]) \<and>
         handleSubmit t p (RefundRejects e) s =
           (s\<lparr>isProcessing := False\<rparr>,
            [SetIsProcessing True,
             ProcessRefund \<lparr>req_orderId = orderId (orderDetails p), req_amount = refundAmount s,
                            req_reason = reason s\<rparr>,
             ConsoleError,
             Toast \<lparr>title = t (js ''refund.failed''),
                    description = Some (case e of ErrorInstance m \<Rightarrow> m
                                        | NotAnError \<Rightarrow> t (js ''refund.errorMessage'')),
                    variant = Some Destructive\<rparr>,
             SetIsProcessing False])"
  using in_range_passes_gate[OF assms(1)] assms(2) by (simp add: handleSubmit_def)

theorem handleSubmit_valid_submission_witness:
  "amount_in_range
     \<lparr>isOpen = True,
        orderDetails = \<lparr>orderId = IdNumber (Finite 42), amount = Finite 100, cardNumber = None\<rparr>,
        onSuccess_given = True\<rparr>
     \<lparr>refundAmount = Finite 50, reason = js ''damaged item'', isProcessing = False\<rparr> \<and>
   handleSubmit (\<lambda>k. k)
     \<lparr>isOpen = True,
        orderDetails = \<lparr>orderId = IdNumber (Finite 42), amount = Finite 100, cardNumber = None\<rparr>,
        onSuccess_given = True\<rparr>
     (RefundRejects (ErrorInstance (js ''card declined'')))
     \<lparr>refundAmount = Finite 50, reason = js ''damaged item'', isProcessing = False\<rparr> =
     (\<lparr>refundAmount = Finite 50, reason = js ''damaged item'', isProcessing = False\<rparr>,
      [SetIsProcessing True,
       ProcessRefund \<lparr>req_orderId = IdNumber (Finite 42), req_amount = Finite 50,
                      req_reason = js ''damaged item''\<rparr>,
       ConsoleError,
       Toast \<lparr>title = js ''refund.failed'', description = Some (js ''card declined''),
              variant = Some Destructive\<rparr>,
       SetIsProcessing False])"
proof -
  have ok: "amount_in_range
     \<lparr>isOpen = True,
        orderDetails = \<lparr>orderId = IdNumber (Finite 42), amount = Finite 100, cardNumber = None\<rparr>,
        onSuccess_given = True\<rparr>
     \<lparr>refundAmount = Finite 50, reason = js ''damaged item'', isProcessing = False\<rparr>"
    by (simp add: amount_in_range_def num_le_def)
  show ?thesis
    using ok trim_damaged_item handleSubmit_valid_submission
      [of "\<lparr>isOpen = True,
        orderDetails = \<lparr>orderId = IdNumber (Finite 42), amount = Finite 100, cardNumber = None\<rparr>,
        onSuccess_given = True\<rparr>"
          "\<lparr>refundAmount = Finite 50, reason = js ''damaged item'', isProcessing = False\<rparr>"
          "\<lambda>k. k" "ErrorInstance (js ''card declined'')"]
    by simp
qed

text \<open>
  Claim C7 as stated fails. The dialog is opened for order 42 with amount 100; the user
  types the reason "damaged item", enters 150 and submits. \<open>handleAmountChange\<close> does not
  take the entry, \<open>refundAmount\<close> is still 100, and \<open>handleSubmit\<close> shows no validation
  notification: it calls the refund service, with amount 100.
\<close>

theorem refund_scenario_150_with_reason_calls_service:
  "(\<lambda>v. if v = js ''150'' then Finite 150 else if v = js ''50'' then Finite 50 else NaN) (js ''150'') = Finite 150 \<and>
   run (\<lambda>k. k) (\<lambda>v. if v = js ''150'' then Finite 150 else if v = js ''50'' then Finite 50 else NaN)
     \<lparr>isOpen = True,
        orderDetails = \<lparr>orderId = IdNumber (Finite 42), amount = Finite 100, cardNumber = None\<rparr>,
        onSuccess_given = True\<rparr>
     [ReasonChange (js ''damaged item''), AmountChange (js ''150''), Submit RefundResolves] =
     (\<lparr>refundAmount = Finite 100, reason = js ''damaged item'', isProcessing = False\<rparr>,
      [SetIsProcessing True,
       ProcessRefund \<lparr>req_orderId = IdNumber (Finite 42), req_amount = Finite 100,
                      req_reason = js ''damaged item''\<rparr>,
       Toast \<lparr>title = js ''refund.success'', description = Some (js ''refund.processed''),
              variant = Some Default\<rparr>,
       OnSuccess, OnClose, SetIsProcessing False])"
  using trim_damaged_item
  by (simp add: run_def handleAmountChange_def handleReasonChange_def handleSubmit_def
      init_def num_le_def num_gt_def Let_def)

text \<open>
  Claim C7, amended. The dialog is opened for order 42 with amount 100.
  An entry of 150 is discarded by \<open>handleAmountChange\<close> in every state, so
  \<open>refundAmount\<close> stays 100 and a submission passes the amount check: while the reason is
  blank it stops at the reason check (the missing-reason notification, no call of the
  refund service, the state as it was), and with a reason that is not blank the refund
  service is called with amount 100. The invalid-amount notification, with no call, is
  what \<open>handleSubmit\<close> gives when \<open>refundAmount\<close> itself is 150.
  When the user enters 50 and the reason "damaged item" and submits, and the service
  succeeds, the service has been called with exactly
  \<open>{orderId: 42, amount: 50, reason: "damaged item"}\<close>, the success notification is shown
  and \<open>onClose\<close> is called. \<open>parseFloat\<close> is any function that reads "150" as 150 and "50"
  as 50, as the built-in does.
\<close>

theorem refund_scenario_order_42:
  assumes "orderId (orderDetails p) = IdNumber (Finite 42)"
    and "amount (orderDetails p) = Finite 100"
    and "parseFloat (js ''150'') = Finite 150"
    and "parseFloat (js ''50'') = Finite 50"
  shows
    "handleAmountChange parseFloat p (js ''150'') s = s \<and>
     run t parseFloat p [AmountChange (js ''150''), Submit outcome] =
       (init p, [Toast \<lparr>title = t (js ''refund.missingReason''),
                        description = Some (t (js ''refund.reasonRequired'')),
                        variant = Some Destructive\<rparr>]) \<and>
     refundAmount (init p) = Finite 100 \<and>
     (trim r \<noteq> [] \<longrightarrow>
        run t parseFloat p [ReasonChange r, AmountChange (js ''150''), Submit RefundResolves] =
          (\<lparr>refundAmount = Finite 100, reason = r, isProcessing = False\<rparr>,
           [SetIsProcessing True,
            ProcessRefund \<lparr>req_orderId = IdNumber (Finite 42), req_amount = Finite 100,
                           req_reason = r\<rparr>,
            Toast \<lparr>title = t (js ''refund.success''),
                   description = Some (t (js ''refund.processed'')), variant = Some Default\<rparr>] @
           (if onSuccess_given p then [OnSuccess] else []) @
           [OnClose, SetIsProcessing False])) \<and>
     handleSubmit t p outcome \<lparr>refundAmount = Finite 150, reason = r, isProcessing = b\<rparr> =
       (\<lparr>refundAmount = Finite 150, reason = r, isProcessing = b\<rparr>,
        [Toast \<lparr>title = t (js ''refund.invalidAmount''),
                description = Some (t (js ''refund.amountError'')),
                variant = Some Destructive\<rparr>]) \<and>
     run t parseFloat p
       [AmountChange (js ''50''), ReasonChange (js ''damaged item''), Submit RefundResolves] =
       (\<lparr>refundAmount = Finite 50, reason = js ''damaged item'', isProcessing = False\<rparr>,
        [SetIsProcessing True,
         ProcessRefund \<lparr>req_orderId = IdNumber (Finite 42), req_amount = Finite 50,
                        req_reason = js ''damaged item''\<rparr>,
         Toast \<lparr>title = t (js ''refund.success''),
                description = Some (t (js ''refund.processed'')), variant = Some Default\<rparr>] @
        (if onSuccess_given p then [OnSuccess] else []) @
        [OnClose, SetIsProcessing False])"
  using assms trim_damaged_item trim_Nil
  by (simp add: run_def handleAmountChange_def handleReasonChange_def handleSubmit_def
      init_def num_le_def num_gt_def Let_def)

theorem refund_scenario_order_42_witness:
  "refund_calls (snd (run (\<lambda>k. k) (\<lambda>v. if v = js ''150'' then Finite 150 else if v = js ''50'' then Finite 50 else NaN)
     \<lparr>isOpen = True,
        orderDetails = \<lparr>orderId = IdNumber (Finite 42), amount = Finite 100, cardNumber = None\<rparr>,
        onSuccess_given = True\<rparr>
     [AmountChange (js ''150''), Submit RefundResolves])) = [] \<and>
   refund_calls (snd (run (\<lambda>k. k) (\<lambda>v. if v = js ''150'' then Finite 150 else if v = js ''50'' then Finite 50 else NaN)
     \<lparr>isOpen = True,
        orderDetails = \<lparr>orderId = IdNumber (Finite 42), amount = Finite 100, cardNumber = None\<rparr>,
        onSuccess_given = True\<rparr>
     [ReasonChange (js ''damaged item''), AmountChange (js ''150''), Submit RefundResolves])) =
     [\<lparr>req_orderId = IdNumber (Finite 42), req_amount = Finite 100,
       req_reason = js ''damaged item''\<rparr>] \<and>
   refund_calls (snd (handleSubmit (\<lambda>k. k)
     \<lparr>isOpen = True,
        orderDetails = \<lparr>orderId = IdNumber (Finite 42), amount = Finite 100, cardNumber = None\<rparr>,
        onSuccess_given = True\<rparr>
     RefundResolves
     \<lparr>refundAmount = Finite 150, reason = js ''damaged item'', isProcessing = False\<rparr>)) = [] \<and>
   refund_calls (snd (run (\<lambda>k. k) (\<lambda>v. if v = js ''150'' then Finite 150 else if v = js ''50'' then Finite 50 else NaN)
     \<lparr>isOpen = True,
        orderDetails = \<lparr>orderId = IdNumber (Finite 42), amount = Finite 100, cardNumber = None\<rparr>,
        onSuccess_given = True\<rparr>
     [AmountChange (js ''50''), ReasonChange (js ''damaged item''), Submit RefundResolves])) =
     [\<lparr>req_orderId = IdNumber (Finite 42), req_amount = Finite 50,
       req_reason = js ''damaged item''\<rparr>]"
proof -
  have pf: "(\<lambda>v. if v = js ''150'' then Finite 150 else if v = js ''50'' then Finite 50 else NaN) (js ''50'') = Finite 50"
    by (simp add: js_def)
  show ?thesis
    using pf trim_damaged_item refund_scenario_order_42
      [where p = "\<lparr>isOpen = True,
        orderDetails = \<lparr>orderId = IdNumber (Finite 42), amount = Finite 100, cardNumber = None\<rparr>,
        onSuccess_given = True\<rparr>"
         and parseFloat = "(\<lambda>v. if v = js ''150'' then Finite 150 else if v = js ''50'' then Finite 50 else NaN)"
         and t = "\<lambda>k. k" and outcome = RefundResolves
         and r = "js ''damaged item''" and b = False]
    by simp
qed

section \<open>Properties of the session context\<close>

lemma auth_toasts_append: "auth_toasts (xs @ ys) = auth_toasts xs @ auth_toasts ys"
  by (induction xs rule: auth_toasts.induct) simp_all

subsection \<open>Sign-out event\<close>

text \<open>
  Claim C4. Whatever the state before, when the listener has processed a \<open>SIGNED_OUT\<close>
  event the state has \<open>isAdmin = false\<close> and \<open>profile = null\<close>; with a \<open>null\<close> session the
  listener starts no profile or role query.
\<close>

theorem signed_out_clears_admin_and_profile:
  "isAdmin (fst (onAuthStateChange_listener SIGNED_OUT sess s)) = False \<and>
   profile (fst (onAuthStateChange_listener SIGNED_OUT sess s)) = None \<and>
   snd (onAuthStateChange_listener SIGNED_OUT None s) = []"
  by (simp add: onAuthStateChange_listener_def Let_def)

subsection \<open>Sign-up with an email that is already there\<close>

text \<open>
  Claim C1 as stated fails: the \<open>profiles\<close> table holds a row with the email, the
  pre-check query answers with an error, \<open>signUp\<close> logs it and goes on: it calls
  \<open>auth.signUp\<close> and inserts a profile row, and reports success.
\<close>

theorem signUp_precheck_error_creates_account:
  "js ''a@b.c'' \<in> email ` set [\<lparr>row_id = js ''u1'', email = js ''a@b.c'', full_name = js ''A'',
          user_type = js ''user'', created_at = js ''2024-01-01T00:00:00.000Z''\<rparr>] \<and>
   signUp \<lparr>precheck = select_id_by_email
               (ErrorAnswer (JsError (Some (js ''TypeError: Failed to fetch''))))
               [\<lparr>row_id = js ''u1'', email = js ''a@b.c'', full_name = js ''A'',
          user_type = js ''user'', created_at = js ''2024-01-01T00:00:00.000Z''\<rparr>] (js ''a@b.c''),
           auth_signUp = Resolves \<lparr>data_user = Some \<lparr>user_id = js ''u2''\<rparr>, data_session = None\<rparr> None,
           profiles_insert = Resolves () None,
           admin_deleteUser = Resolves () None,
           now_iso = js ''2024-06-01T00:00:00.000Z''\<rparr>
      (js ''a@b.c'') (js ''secret'') None =
   (\<lparr>res_error = None, res_data = Some \<lparr>data_user = Some \<lparr>user_id = js ''u2''\<rparr>, data_session = None\<rparr>\<rparr>,
    [SelectIdByEmail (js ''a@b.c''), AuthConsoleError,
     AuthSignUp (js ''a@b.c'') (js ''secret'') None,
     InsertProfile \<lparr>row_id = js ''u2'', email = js ''a@b.c'', full_name = [],
                    user_type = js ''user'', created_at = js ''2024-06-01T00:00:00.000Z''\<rparr>,
     AuthToast \<lparr>title = js ''auth.registration_success'',
                description = Some (js ''auth.account_created''), variant = None\<rparr>])"
  by (simp add: signUp_def select_id_by_email_def signUp_success_def full_name_of_def Let_def)

text \<open>
  Claim C1, amended. For every email, password and metadata: if the pre-check query
  answers with a profile row (\<open>existingUser\<close> is not \<open>null\<close>), \<open>signUp\<close> returns
  \<open>{ error: { message: 'auth.email_already_exists' }, data: null }\<close>, shows the
  registration-failed notification, and sends neither the \<open>auth.signUp\<close> call nor the
  profile insert.
\<close>

theorem signUp_existing_email_rejected:
  assumes "precheck b = Resolves (Some uid) checkError"
  shows "fst (signUp b em password md) =
           \<lparr>res_error = Some (JsError (Some (js ''auth.email_already_exists''))),
            res_data = None\<rparr> \<and>
         filter is_creation (snd (signUp b em password md)) = [] \<and>
         auth_toasts (snd (signUp b em password md)) =
           [\<lparr>title = js ''auth.registration_failed'',
             description = Some (js ''auth.email_already_exists''),
             variant = Some Destructive\<rparr>]"
  using assms by (simp add: signUp_def Let_def)

theorem signUp_existing_email_rejected_witness:
  "select_id_by_email NoFault [\<lparr>row_id = js ''u1'', email = js ''a@b.c'', full_name = js ''A'',
          user_type = js ''user'', created_at = js ''2024-01-01T00:00:00.000Z''\<rparr>] (js ''a@b.c'') = Resolves (Some (js ''u1'')) None \<and>
   signUp \<lparr>precheck = select_id_by_email NoFault [\<lparr>row_id = js ''u1'', email = js ''a@b.c'', full_name = js ''A'',
          user_type = js ''user'', created_at = js ''2024-01-01T00:00:00.000Z''\<rparr>] (js ''a@b.c''),
           auth_signUp = Resolves \<lparr>data_user = Some \<lparr>user_id = js ''u2''\<rparr>, data_session = None\<rparr> None,
           profiles_insert = Resolves () None,
           admin_deleteUser = Resolves () None,
           now_iso = js ''2024-06-01T00:00:00.000Z''\<rparr>
      (js ''a@b.c'') (js ''secret'') None =
   (\<lparr>res_error = Some (JsError (Some (js ''auth.email_already_exists''))), res_data = None\<rparr>,
    [SelectIdByEmail (js ''a@b.c''),
     AuthToast \<lparr>title = js ''auth.registration_failed'',
                description = Some (js ''auth.email_already_exists''),
                variant = Some Destructive\<rparr>])"
proof -
  have found: "select_id_by_email NoFault [\<lparr>row_id = js ''u1'', email = js ''a@b.c'', full_name = js ''A'',
          user_type = js ''user'', created_at = js ''2024-01-01T00:00:00.000Z''\<rparr>] (js ''a@b.c'') =
      Resolves (Some (js ''u1'')) None"
    by (simp add: select_id_by_email_def)
  have "fst (signUp \<lparr>precheck = select_id_by_email NoFault [\<lparr>row_id = js ''u1'', email = js ''a@b.c'', full_name = js ''A'',
          user_type = js ''user'', created_at = js ''2024-01-01T00:00:00.000Z''\<rparr>] (js ''a@b.c''),
           auth_signUp = Resolves \<lparr>data_user = Some \<lparr>user_id = js ''u2''\<rparr>, data_session = None\<rparr> None,
           profiles_insert = Resolves () None,
           admin_deleteUser = Resolves () None,
           now_iso = js ''2024-06-01T00:00:00.000Z''\<rparr>
      (js ''a@b.c'') (js ''secret'') None) =
      \<lparr>res_error = Some (JsError (Some (js ''auth.email_already_exists''))), res_data = None\<rparr>"
    using found signUp_existing_email_rejected
      [of "\<lparr>precheck = select_id_by_email NoFault [\<lparr>row_id = js ''u1'', email = js ''a@b.c'', full_name = js ''A'',
          user_type = js ''user'', created_at = js ''2024-01-01T00:00:00.000Z''\<rparr>] (js ''a@b.c''),
           auth_signUp = Resolves \<lparr>data_user = Some \<lparr>user_id = js ''u2''\<rparr>, data_session = None\<rparr> None,
           profiles_insert = Resolves () None,
           admin_deleteUser = Resolves () None,
           now_iso = js ''2024-06-01T00:00:00.000Z''\<rparr>" "js ''u1''" None]
    by simp
  moreover have "snd (signUp \<lparr>precheck = select_id_by_email NoFault [\<lparr>row_id = js ''u1'', email = js ''a@b.c'', full_name = js ''A'',
          user_type = js ''user'', created_at = js ''2024-01-01T00:00:00.000Z''\<rparr>] (js ''a@b.c''),
           auth_signUp = Resolves \<lparr>data_user = Some \<lparr>user_id = js ''u2''\<rparr>, data_session = None\<rparr> None,
           profiles_insert = Resolves () None,
           admin_deleteUser = Resolves () None,
           now_iso = js ''2024-06-01T00:00:00.000Z''\<rparr>
      (js ''a@b.c'') (js ''secret'') None) =
    [SelectIdByEmail (js ''a@b.c''),
     AuthToast \<lparr>title = js ''auth.registration_failed'',
                description = Some (js ''auth.email_already_exists''),
                variant = Some Destructive\<rparr>]"
    using found by (simp add: signUp_def Let_def)
  ultimately show ?thesis
    using found by (simp add: prod_eq_iff)
qed

subsection \<open>Sign-up whose profile insert fails\<close>

text \<open>
  Claim C5. The backend client reports a failed insert in its answer, as \<open>profileError\<close>.
  Whenever the pre-check finds no row, \<open>auth.signUp\<close> answers with a user and no error,
  and the profile insert answers with an error: \<open>signUp\<close> logs, sends
  \<open>auth.admin.deleteUser\<close> for the user just created, goes on the same way whether that
  call answers or rejects (a rejection is only logged), shows the registration-failed
  notification and returns an error whose message is \<open>auth.profile_creation_failed\<close>.
\<close>

theorem signUp_insert_error_compensates:
  assumes "precheck b = Resolves None checkError" and "auth_signUp b = Resolves d None"
    and "data_user d = Some u" and "profiles_insert b = Resolves x (Some profileError)"
  shows "signUp b em password md =
          (\<lparr>res_error = Some (JsError (Some (js ''auth.profile_creation_failed''))),
            res_data = None\<rparr>,
           SelectIdByEmail em # (if checkError \<noteq> None then [AuthConsoleError] else []) @
           [AuthSignUp em password md,
            InsertProfile \<lparr>row_id = user_id u, email = em, full_name = full_name_of md,
                           user_type = js ''user'', created_at = now_iso b\<rparr>,
            AuthConsoleError,
            AdminDeleteUser (user_id u)] @
           (case admin_deleteUser b of
              Rejects deleteError \<Rightarrow> [AuthConsoleError]
            | Resolves y err \<Rightarrow> []) @
           [AuthToast \<lparr>title = js ''auth.registration_failed'',
                       description = Some (js ''auth.profile_creation_failed''),
                       variant = Some Destructive\<rparr>])"
  using assms by (simp add: signUp_def signUp_catch_def message_or_def js_nonempty Let_def)

theorem signUp_insert_error_compensates_witness:
  "signUp \<lparr>precheck = Resolves None None,
           auth_signUp = Resolves \<lparr>data_user = Some \<lparr>user_id = js ''u2''\<rparr>, data_session = None\<rparr> None,
           profiles_insert = Resolves () (Some (JsError (Some (js ''permission denied'')))),
           admin_deleteUser = Rejects (JsError (Some (js ''not allowed''))),
           now_iso = js ''2024-06-01T00:00:00.000Z''\<rparr>
      (js ''a@b.c'') (js ''secret'') (Some \<lparr>md_full_name = Some (js ''Ann'')\<rparr>) =
   (\<lparr>res_error = Some (JsError (Some (js ''auth.profile_creation_failed''))), res_data = None\<rparr>,
    [SelectIdByEmail (js ''a@b.c''),
     AuthSignUp (js ''a@b.c'') (js ''secret'') (Some \<lparr>md_full_name = Some (js ''Ann'')\<rparr>),
     InsertProfile \<lparr>row_id = js ''u2'', email = js ''a@b.c'', full_name = js ''Ann'',
                    user_type = js ''user'', created_at = js ''2024-06-01T00:00:00.000Z''\<rparr>,
     AuthConsoleError,
     AdminDeleteUser (js ''u2''),
     AuthConsoleError,
     AuthToast \<lparr>title = js ''auth.registration_failed'',
                description = Some (js ''auth.profile_creation_failed''),
                variant = Some Destructive\<rparr>])"
  using signUp_insert_error_compensates
    [of "\<lparr>precheck = Resolves None None,
           auth_signUp = Resolves \<lparr>data_user = Some \<lparr>user_id = js ''u2''\<rparr>, data_session = None\<rparr> None,
           profiles_insert = Resolves () (Some (JsError (Some (js ''permission denied'')))),
           admin_deleteUser = Rejects (JsError (Some (js ''not allowed''))),
           now_iso = js ''2024-06-01T00:00:00.000Z''\<rparr>"
        None "\<lparr>data_user = Some \<lparr>user_id = js ''u2''\<rparr>, data_session = None\<rparr>" "\<lparr>user_id = js ''u2''\<rparr>" "()" "JsError (Some (js ''permission denied''))"
        "js ''a@b.c''" "js ''secret''" "Some \<lparr>md_full_name = Some (js ''Ann'')\<rparr>"]
  by (simp add: full_name_of_def)

subsection \<open>Reporting of failures\<close>

lemma signIn_failure:
  "failure answer = Some e \<Longrightarrow>
     signIn answer em password =
       (Some e, [SignInWithPassword em password,
                 AuthToast \<lparr>title = js ''auth.login_failed'', description = message e,
                            variant = Some Destructive\<rparr>])"
  by (cases answer) (auto simp: signIn_def Let_def split: option.splits)

lemma signUp_precheck_rejects:
  "precheck b = Rejects e \<Longrightarrow>
     fst (signUp b em password md) = \<lparr>res_error = Some e, res_data = None\<rparr> \<and>
     auth_toasts (snd (signUp b em password md)) =
       [\<lparr>title = js ''auth.registration_failed'',
         description = Some (message_or e (js ''auth.unknown_error'')),
         variant = Some Destructive\<rparr>]"
  by (simp add: signUp_def signUp_catch_def)

lemma signUp_auth_fails:
  "precheck b = Resolves None checkError \<Longrightarrow> failure (auth_signUp b) = Some e \<Longrightarrow>
     fst (signUp b em password md) = \<lparr>res_error = Some e, res_data = None\<rparr> \<and>
     auth_toasts (snd (signUp b em password md)) =
       [\<lparr>title = js ''auth.registration_failed'',
         description = Some (message_or e (js ''auth.unknown_error'')),
         variant = Some Destructive\<rparr>]"
  by (cases "auth_signUp b")
     (auto simp: signUp_def signUp_catch_def Let_def auth_toasts_append split: option.splits)

lemma signUp_insert_fails:
  "precheck b = Resolves None checkError \<Longrightarrow> auth_signUp b = Resolves d None \<Longrightarrow>
   data_user d = Some u \<Longrightarrow> failure (profiles_insert b) = Some e \<Longrightarrow>
     (\<exists>e'. fst (signUp b em password md) = \<lparr>res_error = Some e', res_data = None\<rparr> \<and>
           auth_toasts (snd (signUp b em password md)) =
             [\<lparr>title = js ''auth.registration_failed'',
               description = Some (message_or e' (js ''auth.unknown_error'')),
               variant = Some Destructive\<rparr>])"
  by (cases "profiles_insert b"; cases "admin_deleteUser b")
     (auto simp: signUp_def signUp_catch_def Let_def auth_toasts_append split: option.splits)

lemma refreshProfile_failure:
  "user s = Some u \<Longrightarrow> failure answer = Some e \<Longrightarrow>
     refreshProfile answer s = (s, [SelectProfileById (user_id u), AuthConsoleError])"
  by (cases answer) (auto simp: refreshProfile_def fetchProfile_def split: option.splits)

lemma signOut_trace: "snd (signOut answer) = [AuthSignOut]"
  by (cases answer) (simp_all add: signOut_def)

text \<open>
  Claim C9 as stated fails: the backend answers the sign-out call with an error, and
  \<open>signOut\<close> shows no notification (it does nothing but send the call).
\<close>

theorem signOut_failure_unreported:
  "failure (Resolves () (Some (JsError (Some (js ''Network request failed''))))) =
     Some (JsError (Some (js ''Network request failed''))) \<and>
   signOut (Resolves () (Some (JsError (Some (js ''Network request failed''))))) =
     (Inr (), [AuthSignOut]) \<and>
   auth_toasts (snd (signOut (Resolves () (Some (JsError (Some (js ''Network request failed''))))))) = []"
  by (simp add: signOut_def)

text \<open>
  Claim C9, amended. \<open>signIn\<close> reports a failed sign-in call, and \<open>signUp\<close> reports a
  rejected pre-check, a failed \<open>auth.signUp\<close> call and a failed profile insert, each as one
  destructive notification with a title and a description, and returns the error.
  \<open>refreshProfile\<close> shows nothing when its query fails: it logs to the console and leaves
  the state as it was. \<open>signOut\<close> does nothing but send the call, however it is answered.
\<close>

theorem auth_operations_failure_reporting:
  "(failure answer = Some e \<longrightarrow>
      signIn answer em password =
        (Some e, [SignInWithPassword em password,
                  AuthToast \<lparr>title = js ''auth.login_failed'', description = message e,
                             variant = Some Destructive\<rparr>])) \<and>
   (precheck b = Rejects e \<or>
    precheck b = Resolves None checkError \<and> failure (auth_signUp b) = Some e \<longrightarrow>
      fst (signUp b em password md) = \<lparr>res_error = Some e, res_data = None\<rparr> \<and>
      auth_toasts (snd (signUp b em password md)) =
        [\<lparr>title = js ''auth.registration_failed'',
          description = Some (message_or e (js ''auth.unknown_error'')),
          variant = Some Destructive\<rparr>]) \<and>
   (precheck b = Resolves None checkError \<and> auth_signUp b = Resolves d None \<and>
    data_user d = Some u \<and> failure (profiles_insert b) = Some e \<longrightarrow>
      (\<exists>e'. fst (signUp b em password md) = \<lparr>res_error = Some e', res_data = None\<rparr> \<and>
            auth_toasts (snd (signUp b em password md)) =
              [\<lparr>title = js ''auth.registration_failed'',
                description = Some (message_or e' (js ''auth.unknown_error'')),
                variant = Some Destructive\<rparr>])) \<and>
   (user s = Some u' \<and> failure panswer = Some e \<longrightarrow>
      refreshProfile panswer s = (s, [SelectProfileById (user_id u'), AuthConsoleError])) \<and>
   snd (signOut oanswer) = [AuthSignOut]"
  using signIn_failure[of answer e em password]
    signUp_precheck_rejects[of b e em password md]
    signUp_auth_fails[of b checkError e em password md]
    signUp_insert_fails[of b checkError d u e em password md]
    refreshProfile_failure[of s u' panswer e]
    signOut_trace[of oanswer]
  by blast

theorem auth_operations_failure_reporting_witness:
  "signIn (Rejects (JsError (Some (js ''Password is too short'')))) (js ''a@b.c'') (js ''pw'') =
     (Some (JsError (Some (js ''Password is too short''))),
      [SignInWithPassword (js ''a@b.c'') (js ''pw''),
       AuthToast \<lparr>title = js ''auth.login_failed'',
                  description = Some (js ''Password is too short''),
                  variant = Some Destructive\<rparr>]) \<and>
   auth_toasts (snd (signUp
       \<lparr>precheck = Resolves None None,
         auth_signUp = Resolves \<lparr>data_user = Some \<lparr>user_id = js ''u2''\<rparr>, data_session = None\<rparr> (Some (JsError (Some (js ''Password is too short'')))),
         profiles_insert = Resolves () None,
         admin_deleteUser = Resolves () None,
         now_iso = js ''2024-06-01T00:00:00.000Z''\<rparr>
       (js ''a@b.c'') (js ''pw'') None)) =
     [\<lparr>title = js ''auth.registration_failed'',
       description = Some (js ''Password is too short''),
       variant = Some Destructive\<rparr>] \<and>
   refreshProfile (Rejects (JsError (Some (js ''Password is too short''))))
       \<lparr>session = None, user = Some \<lparr>user_id = js ''u2''\<rparr>, loading = False,
         isAdmin = False, profile = None, isLoading = False\<rparr> =
     (\<lparr>session = None, user = Some \<lparr>user_id = js ''u2''\<rparr>, loading = False,
         isAdmin = False, profile = None, isLoading = False\<rparr>,
      [SelectProfileById (js ''u2''), AuthConsoleError]) \<and>
   res_error (fst (signUp
       \<lparr>precheck = Resolves None None,
         auth_signUp = Resolves \<lparr>data_user = Some \<lparr>user_id = js ''u2''\<rparr>, data_session = None\<rparr> None,
         profiles_insert = Rejects (JsError (Some (js ''Password is too short''))),
         admin_deleteUser = Resolves () None,
         now_iso = js ''2024-06-01T00:00:00.000Z''\<rparr>
       (js ''a@b.c'') (js ''pw'') None)) \<noteq> None"
proof -
  have first:
    "signIn (Rejects (JsError (Some (js ''Password is too short'')))) (js ''a@b.c'') (js ''pw'') =
     (Some (JsError (Some (js ''Password is too short''))),
      [SignInWithPassword (js ''a@b.c'') (js ''pw''),
       AuthToast \<lparr>title = js ''auth.login_failed'',
                  description = Some (js ''Password is too short''),
                  variant = Some Destructive\<rparr>]) \<and>
     auth_toasts (snd (signUp
       \<lparr>precheck = Resolves None None,
         auth_signUp = Resolves \<lparr>data_user = Some \<lparr>user_id = js ''u2''\<rparr>, data_session = None\<rparr> (Some (JsError (Some (js ''Password is too short'')))),
         profiles_insert = Resolves () None,
         admin_deleteUser = Resolves () None,
         now_iso = js ''2024-06-01T00:00:00.000Z''\<rparr>
       (js ''a@b.c'') (js ''pw'') None)) =
     [\<lparr>title = js ''auth.registration_failed'',
       description = Some (js ''Password is too short''),
       variant = Some Destructive\<rparr>] \<and>
     refreshProfile (Rejects (JsError (Some (js ''Password is too short''))))
       \<lparr>session = None, user = Some \<lparr>user_id = js ''u2''\<rparr>, loading = False,
         isAdmin = False, profile = None, isLoading = False\<rparr> =
     (\<lparr>session = None, user = Some \<lparr>user_id = js ''u2''\<rparr>, loading = False,
         isAdmin = False, profile = None, isLoading = False\<rparr>,
      [SelectProfileById (js ''u2''), AuthConsoleError])"
    using auth_operations_failure_reporting
      [where answer = "Rejects (JsError (Some (js ''Password is too short'')))"
         and e = "JsError (Some (js ''Password is too short''))"
         and em = "js ''a@b.c''" and password = "js ''pw''" and md = None
         and b = "\<lparr>precheck = Resolves None None,
         auth_signUp = Resolves \<lparr>data_user = Some \<lparr>user_id = js ''u2''\<rparr>, data_session = None\<rparr> (Some (JsError (Some (js ''Password is too short'')))),
         profiles_insert = Resolves () None,
         admin_deleteUser = Resolves () None,
         now_iso = js ''2024-06-01T00:00:00.000Z''\<rparr>"
         and checkError = None
         and s = "\<lparr>session = None, user = Some \<lparr>user_id = js ''u2''\<rparr>, loading = False,
         isAdmin = False, profile = None, isLoading = False\<rparr>"
         and u' = "\<lparr>user_id = js ''u2''\<rparr>"
         and panswer = "Rejects (JsError (Some (js ''Password is too short'')))"]
    by (simp add: message_or_def js_nonempty)
  have "\<exists>e'. fst (signUp
       \<lparr>precheck = Resolves None None,
         auth_signUp = Resolves \<lparr>data_user = Some \<lparr>user_id = js ''u2''\<rparr>, data_session = None\<rparr> None,
         profiles_insert = Rejects (JsError (Some (js ''Password is too short''))),
         admin_deleteUser = Resolves () None,
         now_iso = js ''2024-06-01T00:00:00.000Z''\<rparr>
       (js ''a@b.c'') (js ''pw'') None) = \<lparr>res_error = Some e', res_data = None\<rparr>"
    using auth_operations_failure_reporting
      [where e = "JsError (Some (js ''Password is too short''))"
         and em = "js ''a@b.c''" and password = "js ''pw''" and md = None
         and b = "\<lparr>precheck = Resolves None None,
         auth_signUp = Resolves \<lparr>data_user = Some \<lparr>user_id = js ''u2''\<rparr>, data_session = None\<rparr> None,
         profiles_insert = Rejects (JsError (Some (js ''Password is too short''))),
         admin_deleteUser = Resolves () None,
         now_iso = js ''2024-06-01T00:00:00.000Z''\<rparr>"
         and checkError = None
         and d = "\<lparr>data_user = Some \<lparr>user_id = js ''u2''\<rparr>, data_session = None\<rparr>"
         and u = "\<lparr>user_id = js ''u2''\<rparr>"]
    by simp blast
  then have second: "res_error (fst (signUp
       \<lparr>precheck = Resolves None None,
         auth_signUp = Resolves \<lparr>data_user = Some \<lparr>user_id = js ''u2''\<rparr>, data_session = None\<rparr> None,
         profiles_insert = Rejects (JsError (Some (js ''Password is too short''))),
         admin_deleteUser = Resolves () None,
         now_iso = js ''2024-06-01T00:00:00.000Z''\<rparr>
       (js ''a@b.c'') (js ''pw'') None)) \<noteq> None"
    by auto
  from first second show ?thesis
    by simp
qed

section \<open>Properties of the country selector\<close>

text \<open>
  Claim C6 as stated fails: the query is one space and the list holds Egypt alone, whose
  name, Arabic name and code contain no space. The specification's filter gives no
  entry; \<open>filteredCountries\<close> gives the whole list, because a query that is blank after
  trimming is treated as no query.
\<close>

theorem filteredCountries_blank_query_counterexample:
  "set (filteredCountries toLowerCase_ascii
      [\<lparr>code = js ''EG'', name = js ''Egypt'', nameAr = [0x645, 0x635, 0x631],
       flagEmoji = [0xD83C, 0xDDEA, 0xD83C, 0xDDEC]\<rparr>] (js '' ''))
   \<noteq> set (spec_matching_countries toLowerCase_ascii
      [\<lparr>code = js ''EG'', name = js ''Egypt'', nameAr = [0x645, 0x635, 0x631],
       flagEmoji = [0xD83C, 0xDDEA, 0xD83C, 0xDDEC]\<rparr>] (js '' ''))"
  by (simp add: filteredCountries_def spec_matching_countries_def spec_contains_ci_def
      toLowerCase_ascii_def trim_def isWhiteSpace_def js_def sublist_code)

text \<open>
  Claim C6, amended. For every query \<open>q\<close> that is not blank after trimming, the filtered
  list is the list of the entries whose name, Arabic name or code contains \<open>q\<close>, both
  sides lower-cased, in the order of the static list. For every query that is empty or
  blank after trimming, it is the full list. When the filtered list is empty the
  not-found message is rendered, and the grid of the filtered list otherwise.
\<close>

theorem filteredCountries_matches_spec:
  "(trim q \<noteq> [] \<longrightarrow> filteredCountries toLowerCase cs q = spec_matching_countries toLowerCase cs q) \<and>
   (trim q = [] \<longrightarrow> filteredCountries toLowerCase cs q = cs) \<and>
   filteredCountries toLowerCase cs [] = cs \<and>
   (filteredCountries toLowerCase cs q = [] \<longrightarrow>
      detailed_country_list toLowerCase cs q = NoCountriesFound) \<and>
   (filteredCountries toLowerCase cs q \<noteq> [] \<longrightarrow>
      detailed_country_list toLowerCase cs q = CountryGrid (filteredCountries toLowerCase cs q))"
  by (simp add: filteredCountries_def spec_matching_countries_def spec_contains_ci_def
      includes_js_def detailed_country_list_def trim_def Let_def)

theorem filteredCountries_matches_spec_witness:
  "trim (js ''eg'') \<noteq> [] \<and>
   filteredCountries toLowerCase_ascii
     [\<lparr>code = js ''EG'', name = js ''Egypt'', nameAr = [0x645, 0x635, 0x631],
       flagEmoji = [0xD83C, 0xDDEA, 0xD83C, 0xDDEC]\<rparr>,
      \<lparr>code = js ''SA'', name = js ''Saudi Arabia'',
       nameAr = [0x627, 0x644, 0x633, 0x639, 0x648, 0x62F, 0x64A, 0x629],
       flagEmoji = [0xD83C, 0xDDF8, 0xD83C, 0xDDE6]\<rparr>] (js ''eg'') =
     [\<lparr>code = js ''EG'', name = js ''Egypt'', nameAr = [0x645, 0x635, 0x631],
       flagEmoji = [0xD83C, 0xDDEA, 0xD83C, 0xDDEC]\<rparr>] \<and>
   detailed_country_list toLowerCase_ascii
     [\<lparr>code = js ''EG'', name = js ''Egypt'', nameAr = [0x645, 0x635, 0x631],
       flagEmoji = [0xD83C, 0xDDEA, 0xD83C, 0xDDEC]\<rparr>,
      \<lparr>code = js ''SA'', name = js ''Saudi Arabia'',
       nameAr = [0x627, 0x644, 0x633, 0x639, 0x648, 0x62F, 0x64A, 0x629],
       flagEmoji = [0xD83C, 0xDDF8, 0xD83C, 0xDDE6]\<rparr>] (js ''eg'') =
     CountryGrid [\<lparr>code = js ''EG'', name = js ''Egypt'', nameAr = [0x645, 0x635, 0x631],
       flagEmoji = [0xD83C, 0xDDEA, 0xD83C, 0xDDEC]\<rparr>] \<and>
   detailed_country_list toLowerCase_ascii
     [\<lparr>code = js ''EG'', name = js ''Egypt'', nameAr = [0x645, 0x635, 0x631],
       flagEmoji = [0xD83C, 0xDDEA, 0xD83C, 0xDDEC]\<rparr>,
      \<lparr>code = js ''SA'', name = js ''Saudi Arabia'',
       nameAr = [0x627, 0x644, 0x633, 0x639, 0x648, 0x62F, 0x64A, 0x629],
       flagEmoji = [0xD83C, 0xDDF8, 0xD83C, 0xDDE6]\<rparr>] (js ''xq'') = NoCountriesFound \<and>
   filteredCountries toLowerCase_ascii
     [\<lparr>code = js ''EG'', name = js ''Egypt'', nameAr = [0x645, 0x635, 0x631],
       flagEmoji = [0xD83C, 0xDDEA, 0xD83C, 0xDDEC]\<rparr>,
      \<lparr>code = js ''SA'', name = js ''Saudi Arabia'',
       nameAr = [0x627, 0x644, 0x633, 0x639, 0x648, 0x62F, 0x64A, 0x629],
       flagEmoji = [0xD83C, 0xDDF8, 0xD83C, 0xDDE6]\<rparr>] (js ''  '') =
     [\<lparr>code = js ''EG'', name = js ''Egypt'', nameAr = [0x645, 0x635, 0x631],
       flagEmoji = [0xD83C, 0xDDEA, 0xD83C, 0xDDEC]\<rparr>,
      \<lparr>code = js ''SA'', name = js ''Saudi Arabia'',
       nameAr = [0x627, 0x644, 0x633, 0x639, 0x648, 0x62F, 0x64A, 0x629],
       flagEmoji = [0xD83C, 0xDDF8, 0xD83C, 0xDDE6]\<rparr>]"
proof -
  have ne: "trim (js ''eg'') \<noteq> []" "trim (js ''xq'') \<noteq> []"
    by (simp_all add: js_def trim_def isWhiteSpace_def)
  have blank: "trim (js ''  '') = []"
    by (simp add: js_def trim_def isWhiteSpace_def)
  have m: "spec_matching_countries toLowerCase_ascii
     [\<lparr>code = js ''EG'', name = js ''Egypt'', nameAr = [0x645, 0x635, 0x631],
       flagEmoji = [0xD83C, 0xDDEA, 0xD83C, 0xDDEC]\<rparr>,
      \<lparr>code = js ''SA'', name = js ''Saudi Arabia'',
       nameAr = [0x627, 0x644, 0x633, 0x639, 0x648, 0x62F, 0x64A, 0x629],
       flagEmoji = [0xD83C, 0xDDF8, 0xD83C, 0xDDE6]\<rparr>] (js ''eg'') =
     [\<lparr>code = js ''EG'', name = js ''Egypt'', nameAr = [0x645, 0x635, 0x631],
       flagEmoji = [0xD83C, 0xDDEA, 0xD83C, 0xDDEC]\<rparr>]"
    by (simp add: spec_matching_countries_def spec_contains_ci_def toLowerCase_ascii_def
        js_def sublist_code)
  have n: "spec_matching_countries toLowerCase_ascii
     [\<lparr>code = js ''EG'', name = js ''Egypt'', nameAr = [0x645, 0x635, 0x631],
       flagEmoji = [0xD83C, 0xDDEA, 0xD83C, 0xDDEC]\<rparr>,
      \<lparr>code = js ''SA'', name = js ''Saudi Arabia'',
       nameAr = [0x627, 0x644, 0x633, 0x639, 0x648, 0x62F, 0x64A, 0x629],
       flagEmoji = [0xD83C, 0xDDF8, 0xD83C, 0xDDE6]\<rparr>] (js ''xq'') = []"
    by (simp add: spec_matching_countries_def spec_contains_ci_def toLowerCase_ascii_def
        js_def sublist_code)
  show ?thesis
    using ne m n blank
      filteredCountries_matches_spec
        [of "js ''  ''" toLowerCase_ascii
          "[\<lparr>code = js ''EG'', name = js ''Egypt'', nameAr = [0x645, 0x635, 0x631],
       flagEmoji = [0xD83C, 0xDDEA, 0xD83C, 0xDDEC]\<rparr>,
            \<lparr>code = js ''SA'', name = js ''Saudi Arabia'',
       nameAr = [0x627, 0x644, 0x633, 0x639, 0x648, 0x62F, 0x64A, 0x629],
       flagEmoji = [0xD83C, 0xDDF8, 0xD83C, 0xDDE6]\<rparr>]"]
      filteredCountries_matches_spec
        [of "js ''eg''" toLowerCase_ascii
          "[\<lparr>code = js ''EG'', name = js ''Egypt'', nameAr = [0x645, 0x635, 0x631],
       flagEmoji = [0xD83C, 0xDDEA, 0xD83C, 0xDDEC]\<rparr>,
            \<lparr>code = js ''SA'', name = js ''Saudi Arabia'',
       nameAr = [0x627, 0x644, 0x633, 0x639, 0x648, 0x62F, 0x64A, 0x629],
       flagEmoji = [0xD83C, 0xDDF8, 0xD83C, 0xDDE6]\<rparr>]"]
      filteredCountries_matches_spec
        [of "js ''xq''" toLowerCase_ascii
          "[\<lparr>code = js ''EG'', name = js ''Egypt'', nameAr = [0x645, 0x635, 0x631],
       flagEmoji = [0xD83C, 0xDDEA, 0xD83C, 0xDDEC]\<rparr>,
            \<lparr>code = js ''SA'', name = js ''Saudi Arabia'',
       nameAr = [0x627, 0x644, 0x633, 0x639, 0x648, 0x62F, 0x64A, 0x629],
       flagEmoji = [0xD83C, 0xDDF8, 0xD83C, 0xDDE6]\<rparr>]"]
    by simp
qed

end
